theory Spec2Isabelle
  imports Main "HOL-Library.Word"
begin

unbundle bit_operations_syntax

section \<open>The two query functions of \<^verbatim>\<open>backend/test_scripts/queries.py\<close>\<close>

text \<open>
  The module has two functions. \<^verbatim>\<open>query_graph\<close> posts a fixed GraphQL document to a
  subgraph gateway, prints the status code of the response and returns
  \<^verbatim>\<open>r.json()["data"]\<close>. \<^verbatim>\<open>query_binance\<close> gets a fixed URL, prints the status code
  and returns \<^verbatim>\<open>r.json()\<close>.

  Both talk to the outside through the \<^verbatim>\<open>requests\<close> library and through standard
  output. The embedding makes both explicit: the client is a parameter (a function
  from the request it is called with to either the exception it raises or the response
  it returns), and everything a call does to the outside is appended, in program
  order, to a trace of events. What the client itself does with one call, following
  redirects over the wire and decoding the body of the response, is library code; the
  parts of it that the properties below depend on are modelled in sections of their
  own.
\<close>

subsection \<open>Values\<close>

text \<open>
  What \<^verbatim>\<open>r.json()\<close> can return, and what the \<^verbatim>\<open>json=\<close> argument of
  \<^verbatim>\<open>requests.post\<close> takes: Python's image of JSON. Integers are unbounded. A float
  is kept as its IEEE 754 binary64 bit pattern; no arithmetic is ever done on it. A
  \<^verbatim>\<open>str\<close> is a \<^typ>\<open>string\<close> (text beyond ASCII as its UTF-8 bytes, which keeps
  equality of strings). A \<^verbatim>\<open>dict\<close> is the list of its items in insertion order;
  the keys of a dict are distinct, and a lookup finds the item with the key.
\<close>

datatype pyval =
    PNone
  | PBool bool
  | PInt int
  | PFloat "64 word"
  | PStr string
  | PList "pyval list"
  | PDict "(string \<times> pyval) list"

subsection \<open>Exceptions\<close>

text \<open>
  The module catches nothing, so an exception raised anywhere ends the call and reaches
  the caller. \<open>RequestException\<close> stands for whatever the HTTP layer raises
  (connection refused, DNS failure, timeout) and \<open>TooManyRedirects\<close> for the client
  giving up on a chain of redirects. \<^verbatim>\<open>r.json()\<close> raises \<open>JSONDecodeError\<close> on a
  body its decoder cannot read, \<open>ValueError\<close> on an integer with more digits than the
  interpreter converts, and \<open>RecursionError\<close> on nesting deeper than the interpreter's
  stack allows. \<open>KeyError k\<close> is a missing dict key \<open>k\<close>, \<open>TypeError\<close> the
  subscripting of a value with an index of the wrong type or of a value that has no
  subscript.
\<close>

datatype error =
    RequestException
  | TooManyRedirects
  | JSONDecodeError
  | ValueError
  | RecursionError
  | KeyError string
  | TypeError

subsection \<open>The HTTP layer and the trace\<close>

datatype http_method = GET | POST

text \<open>
  A request as the module hands it to \<^verbatim>\<open>requests\<close>: the HTTP method, the URL, the
  \<^verbatim>\<open>headers=\<close> argument and the \<^verbatim>\<open>json=\<close> argument (\<open>None\<close> when the call
  passes none).
\<close>

record request =
  verb :: http_method
  url :: string
  headers :: "(string \<times> string) list"
  json :: "pyval option"

text \<open>
  A response as the module reads it: \<^verbatim>\<open>r.status_code\<close>, and the outcome of
  \<^verbatim>\<open>r.json()\<close>, which is the value the decoder returns or the exception it raises.
  \<open>json_body\<close> is the returned value, \<open>None\<close> when there is none.
\<close>

record response =
  status_code :: int
  json_result :: "error + pyval"

definition json_body :: "response \<Rightarrow> pyval option" where
  "json_body r = (case json_result r of Inl e \<Rightarrow> None | Inr v \<Rightarrow> Some v)"

text \<open>
  The client: what one call of \<^verbatim>\<open>requests.post\<close> or \<^verbatim>\<open>requests.get\<close> gives back
  for the request it is called with. \<open>Sent req\<close> in the trace is one such call;
  the requests that the call puts on the wire are \<open>on_wire\<close> below.
\<close>

type_synonym transport = "request \<Rightarrow> error + response"

datatype event =
    Sent request
  | Printed int

type_synonym world = "event list"

text \<open>
  \<^verbatim>\<open>requests.post(url, headers=h, json=j)\<close> and \<^verbatim>\<open>requests.get(url)\<close>: one call
  of the client, recorded in the trace, with the client's answer to it. The answer is
  the last response of the call when the client has followed redirects.
\<close>

definition requests_post ::
  "transport \<Rightarrow> string \<Rightarrow> (string \<times> string) list \<Rightarrow> pyval \<Rightarrow> world \<Rightarrow> (error + response) \<times> world"
where
  "requests_post http u h j w =
     (let req = \<lparr>verb = POST, url = u, headers = h, json = Some j\<rparr>
      in (http req, w @ [Sent req]))"

definition requests_get :: "transport \<Rightarrow> string \<Rightarrow> world \<Rightarrow> (error + response) \<times> world" where
  "requests_get http u w =
     (let req = \<lparr>verb = GET, url = u, headers = [], json = None\<rparr>
      in (http req, w @ [Sent req]))"

definition print :: "int \<Rightarrow> world \<Rightarrow> world" where
  "print x w = w @ [Printed x]"

definition response_json :: "response \<Rightarrow> error + pyval" where
  "response_json r = json_result r"

text \<open>
  \<^verbatim>\<open>v[k]\<close> for a \<^verbatim>\<open>str\<close> key \<open>k\<close>. Only a dict can be subscripted by a string: a
  missing key raises KeyError; a list or a string wants an integer index and every
  other value has no subscript, all of which raise TypeError.
\<close>

fun subscript :: "pyval \<Rightarrow> string \<Rightarrow> error + pyval" where
  "subscript (PDict d) k = (case map_of d k of None \<Rightarrow> Inl (KeyError k) | Some v \<Rightarrow> Inr v)"
| "subscript _ k = Inl TypeError"

subsection \<open>\<^verbatim>\<open>query_graph\<close>\<close>

text \<open>The document between the triple quotes, line by line as it stands in the source.\<close>

definition graph_q :: string where
  \<open>graph_q =
     ''\<newline>'' @
     ''  {\<newline>'' @
     ''    swaps(where:{pool_in:["0x88e6a0c2ddd26feeb64f039a2c41296fcb3f5640",\<newline>'' @
     ''                          "0x8ad599c3a0ff1de082011efddc58f1908eb6e6d8",\<newline>'' @
     ''                          "0xe0554a476a092703abdb3ef35c80e0d76d32939f"\<newline>'' @
     ''                          "0x7BeA39867e4169DBe237d55C8242a8f2fcDcc387"]\<newline>'' @
     ''                 timestamp_gt:1733080500 timestamp_lt:1733080560 }\<newline>'' @
     ''          orderBy:timestamp orderDirection:desc )\<newline>'' @
     ''    {\<newline>'' @
     ''      amount0\<newline>'' @
     ''      amount1\<newline>'' @
     ''    }\<newline>'' @
     ''  }''\<close>

definition graph_url :: string where
  "graph_url = ''https://gateway.thegraph.com/api/da162f6f59fe4400bb44cfb2f36d1336/subgraphs/id/5zvR82QoaXYFyDEKLZ9t6v9adgnptxYpKpSbxtgVENFV''"

definition graph_header :: "(string \<times> string) list" where
  "graph_header = [(''Content-Type'', ''application/json'')]"

definition graph_request :: request where
  "graph_request =
     \<lparr>verb = POST, url = graph_url, headers = graph_header,
      json = Some (PDict [(''query'', PStr graph_q)])\<rparr>"

definition query_graph :: "transport \<Rightarrow> world \<Rightarrow> (error + pyval) \<times> world" where
  "query_graph http w0 =
     (case requests_post http graph_url graph_header (PDict [(''query'', PStr graph_q)]) w0 of
        (Inl e, w1) \<Rightarrow> (Inl e, w1)
      | (Inr r, w1) \<Rightarrow>
          (let w2 = print (status_code r) w1
           in case response_json r of
                Inl e \<Rightarrow> (Inl e, w2)
              | Inr body \<Rightarrow> (subscript body ''data'', w2)))"

subsection \<open>\<^verbatim>\<open>query_binance\<close>\<close>

definition binance_url :: string where
  "binance_url = ''https://api.binance.com/api/v3/aggTrades?symbol=ETHUSDC&startTime=1733240400000&endTime=1733240460000''"

definition binance_request :: request where
  "binance_request = \<lparr>verb = GET, url = binance_url, headers = [], json = None\<rparr>"

definition query_binance :: "transport \<Rightarrow> world \<Rightarrow> (error + pyval) \<times> world" where
  "query_binance http w0 =
     (case requests_get http binance_url w0 of
        (Inl e, w1) \<Rightarrow> (Inl e, w1)
      | (Inr r, w1) \<Rightarrow>
          (let w2 = print (status_code r) w1
           in (response_json r, w2)))"

subsection \<open>Reading a trace\<close>

fun requests_of :: "world \<Rightarrow> request list" where
  "requests_of [] = []"
| "requests_of (Sent req # w) = req # requests_of w"
| "requests_of (Printed x # w) = requests_of w"

fun printed_of :: "world \<Rightarrow> int list" where
  "printed_of [] = []"
| "printed_of (Sent req # w) = printed_of w"
| "printed_of (Printed x # w) = x # printed_of w"

subsection \<open>Reading a request\<close>

text \<open>
  \<^verbatim>\<open>requests\<close> turns the \<^verbatim>\<open>json=\<close> argument into the body with its JSON encoder,
  which rejects only floats that are not finite (the keys of a \<open>pyval\<close> dict are
  strings already). A binary64 is finite when its eleven exponent bits are not all set.
\<close>

definition finite_float :: "64 word \<Rightarrow> bool" where
  "finite_float w = (drop_bit 52 w AND 0x7FF \<noteq> 0x7FF)"

fun json_serialisable :: "pyval \<Rightarrow> bool" where
  "json_serialisable (PFloat w) = finite_float w"
| "json_serialisable (PList vs) = list_all json_serialisable vs"
| "json_serialisable (PDict d) = list_all (\<lambda>(k, v). json_serialisable v) d"
| "json_serialisable _ = True"

text \<open>The string under the key \<^verbatim>\<open>query\<close> of a request's JSON body, if there is one.\<close>

definition body_query :: "request \<Rightarrow> string option" where
  "body_query req =
     (case json req of
        Some (PDict d) \<Rightarrow> (case map_of d ''query'' of Some (PStr s) \<Rightarrow> Some s | _ \<Rightarrow> None)
      | _ \<Rightarrow> None)"

text \<open>
  A URL of the form \<^verbatim>\<open>scheme://authority/path?k=v&k=v#fragment\<close> taken apart: the
  authority ends at the first of \<^verbatim>\<open>/ ? #\<close>, the path at the first of \<^verbatim>\<open>? #\<close>, the
  query string at \<^verbatim>\<open>#\<close>; the query string is cut at every \<^verbatim>\<open>&\<close> and each piece at
  its first \<^verbatim>\<open>=\<close>.
\<close>

fun split_on :: "char \<Rightarrow> string \<Rightarrow> string list" where
  "split_on c [] = [[]]"
| "split_on c (x # xs) =
     (if x = c then [] # split_on c xs
      else case split_on c xs of [] \<Rightarrow> [[x]] | y # ys \<Rightarrow> (x # y) # ys)"

definition key_value :: "string \<Rightarrow> string \<times> string" where
  "key_value s =
     (takeWhile (\<lambda>c. c \<noteq> CHR ''='') s, drop 1 (dropWhile (\<lambda>c. c \<noteq> CHR ''='') s))"

record url_parts =
  scheme :: string
  authority :: string
  path :: string
  query :: "(string \<times> string) list"

definition split_url :: "string \<Rightarrow> url_parts option" where
  "split_url u =
     (let sch = takeWhile (\<lambda>c. c \<noteq> CHR '':'') u;
          r0 = dropWhile (\<lambda>c. c \<noteq> CHR '':'') u
      in if take 3 r0 = ''://'' then
           (let r1 = drop 3 r0;
                auth = takeWhile (\<lambda>c. c \<notin> set ''/?#'') r1;
                r2 = dropWhile (\<lambda>c. c \<notin> set ''/?#'') r1;
                p = takeWhile (\<lambda>c. c \<notin> set ''?#'') r2;
                r3 = dropWhile (\<lambda>c. c \<notin> set ''?#'') r2;
                q = (if take 1 r3 = ''?''
                     then map key_value
                            (split_on (CHR ''&'') (takeWhile (\<lambda>c. c \<noteq> CHR ''#'') (drop 1 r3)))
                     else [])
            in Some \<lparr>scheme = sch, authority = auth, path = p, query = q\<rparr>)
         else None)"

subsection \<open>Reading a GraphQL document: tokens\<close>

text \<open>
  \<^verbatim>\<open>query_graph\<close> only carries its document as a string; what the document asks for
  is decided by the GraphQL grammar, under which the gateway reads it. This is the
  part of that grammar the document needs. Between tokens, tabs, spaces, line
  terminators, commas and comments (\<^verbatim>\<open>#\<close> to the end of the line) are ignored; a comma
  separates nothing that white space does not separate as well. The tokens are the
  one-character punctuators, names, integers and quoted strings. Everything else
  (the spread \<^verbatim>\<open>...\<close>, floats, escapes inside a string, block strings) is outside the
  part modelled here and makes the reading fail with \<open>None\<close>, as does text that the
  grammar rejects: a string that is not closed on its line, a number with a leading
  zero, a number that runs into a name or a dot.
\<close>

datatype token = Punct char | Name string | IntTok int | StrTok string

definition line_terminator :: "char \<Rightarrow> bool" where
  "line_terminator c = (c = CHR 0x0A \<or> c = CHR 0x0D)"

definition ignored :: "char \<Rightarrow> bool" where
  "ignored c = (c = CHR 0x09 \<or> c = CHR '' '' \<or> c = CHR '','' \<or> line_terminator c)"

definition punctuator :: "char \<Rightarrow> bool" where
  "punctuator c = (c \<in> set ''!$&():=@[]{|}'')"

definition digit :: "char \<Rightarrow> bool" where
  "digit c = (c \<in> set ''0123456789'')"

definition name_start :: "char \<Rightarrow> bool" where
  "name_start c = (c \<in> set ''_abcdefghijklmnopqrstuvwxyzABCDEFGHIJKLMNOPQRSTUVWXYZ'')"

definition name_continue :: "char \<Rightarrow> bool" where
  "name_continue c = (name_start c \<or> digit c)"

definition string_character :: "char \<Rightarrow> bool" where
  \<open>string_character c =
     (if c = CHR ''"'' then False
      else if c = CHR 0x5C then False
      else if line_terminator c then False
      else True)\<close>

definition digit_value :: "char \<Rightarrow> int" where
  "digit_value c = int (of_char c) - 48"

definition decimal :: "string \<Rightarrow> int" where
  "decimal ds = foldl (\<lambda>n c. 10 * n + digit_value c) 0 ds"

definition int_token :: "bool \<Rightarrow> string \<Rightarrow> string \<Rightarrow> token option" where
  "int_token neg ds rest =
     (if ds = [] then None
      else if hd ds = CHR ''0'' \<and> tl ds \<noteq> [] then None
      else if rest \<noteq> [] \<and> (hd rest = CHR ''.'' \<or> name_start (hd rest)) then None
      else Some (IntTok (if neg then - decimal ds else decimal ds)))"

function tokens :: "string \<Rightarrow> token list option" where
  "tokens [] = Some []"
| \<open>tokens (c # cs) =
     (if ignored c then tokens cs
      else if c = CHR ''#'' then tokens (dropWhile (\<lambda>x. \<not> line_terminator x) cs)
      else if punctuator c then map_option ((#) (Punct c)) (tokens cs)
      else if name_start c then
        map_option ((#) (Name (c # takeWhile name_continue cs)))
          (tokens (dropWhile name_continue cs))
      else if c = CHR ''"'' then
        (case dropWhile string_character cs of
           [] \<Rightarrow> None
         | d # rest \<Rightarrow>
             if d = CHR ''"'' then
               (if takeWhile string_character cs = [] \<and> take 1 rest = ''"'' then None
                else map_option ((#) (StrTok (takeWhile string_character cs))) (tokens rest))
             else None)
      else if c = CHR ''-'' then
        (case int_token True (takeWhile digit cs) (dropWhile digit cs) of
           None \<Rightarrow> None
         | Some t \<Rightarrow> map_option ((#) t) (tokens (dropWhile digit cs)))
      else if digit c then
        (case int_token False (c # takeWhile digit cs) (dropWhile digit cs) of
           None \<Rightarrow> None
         | Some t \<Rightarrow> map_option ((#) t) (tokens (dropWhile digit cs)))
      else None)\<close>
  by pat_completeness auto
termination
proof (relation "measure length")
  fix c :: char and cs :: string and d rest
  assume "dropWhile string_character cs = d # rest"
  then have "length (d # rest) \<le> length cs"
    by (metis length_dropWhile_le)
  then show "(rest, c # cs) \<in> measure length"
    by simp
qed (auto simp: length_dropWhile_le less_Suc_eq_le)

subsection \<open>Reading a GraphQL document: values, arguments, selections\<close>

text \<open>
  A value is an integer, a string, \<^verbatim>\<open>true\<close>, \<^verbatim>\<open>false\<close>, \<^verbatim>\<open>null\<close>, any other name
  (an enum value), a list \<^verbatim>\<open>[v ...]\<close> or an object \<^verbatim>\<open>{name: v ...}\<close>. A field is a
  name, optional arguments \<^verbatim>\<open>(name: v ...)\<close>, of which there is at least one when the
  parentheses are there, and an optional selection set \<^verbatim>\<open>{field ...}\<close>, which is never
  empty. A document is read in its shorthand form, one selection set. Variables,
  aliases, directives and fragments are outside the part modelled here.

  The functions that descend into nested values and selections take the number of
  steps they may still make; the callers pass the number of tokens, which is more
  than any descent needs.
\<close>

datatype gvalue =
    IntValue int
  | StringValue string
  | BooleanValue bool
  | NullValue
  | EnumValue string
  | ListValue "gvalue list"
  | ObjectValue "(string \<times> gvalue) list"

datatype selection = Selection string "(string \<times> gvalue) list" "selection list"

definition name_value :: "string \<Rightarrow> gvalue" where
  "name_value a =
     (if a = ''true'' then BooleanValue True
      else if a = ''false'' then BooleanValue False
      else if a = ''null'' then NullValue
      else EnumValue a)"

fun parse_value :: "nat \<Rightarrow> token list \<Rightarrow> (gvalue \<times> token list) option"
and parse_values :: "nat \<Rightarrow> token list \<Rightarrow> (gvalue list \<times> token list) option"
and parse_pairs ::
  "nat \<Rightarrow> char \<Rightarrow> token list \<Rightarrow> ((string \<times> gvalue) list \<times> token list) option"
where
  "parse_value 0 ts = None"
| "parse_value (Suc n) [] = None"
| "parse_value (Suc n) (IntTok i # ts) = Some (IntValue i, ts)"
| "parse_value (Suc n) (StrTok s # ts) = Some (StringValue s, ts)"
| "parse_value (Suc n) (Name a # ts) = Some (name_value a, ts)"
| "parse_value (Suc n) (Punct c # ts) =
     (if c = CHR ''['' then
        (case parse_values n ts of
           None \<Rightarrow> None
         | Some (vs, ts') \<Rightarrow> Some (ListValue vs, ts'))
      else if c = CHR ''{'' then
        (case parse_pairs n (CHR ''}'') ts of
           None \<Rightarrow> None
         | Some (fs, ts') \<Rightarrow> Some (ObjectValue fs, ts'))
      else None)"
| "parse_values 0 ts = None"
| "parse_values (Suc n) ts =
     (if take 1 ts = [Punct (CHR '']'')] then Some ([], drop 1 ts)
      else case parse_value n ts of
             None \<Rightarrow> None
           | Some (v, ts') \<Rightarrow>
               (case parse_values n ts' of
                  None \<Rightarrow> None
                | Some (vs, ts'') \<Rightarrow> Some (v # vs, ts'')))"
| "parse_pairs 0 close ts = None"
| "parse_pairs (Suc n) close [] = None"
| "parse_pairs (Suc n) close (Punct c # ts) = (if c = close then Some ([], ts) else None)"
| "parse_pairs (Suc n) close (Name a # ts) =
     (if take 1 ts = [Punct (CHR '':'')] then
        (case parse_value n (drop 1 ts) of
           None \<Rightarrow> None
         | Some (v, ts') \<Rightarrow>
             (case parse_pairs n close ts' of
                None \<Rightarrow> None
              | Some (ps, ts'') \<Rightarrow> Some ((a, v) # ps, ts'')))
      else None)"
| "parse_pairs (Suc n) close (IntTok i # ts) = None"
| "parse_pairs (Suc n) close (StrTok s # ts) = None"

definition parse_arguments ::
  "token list \<Rightarrow> ((string \<times> gvalue) list \<times> token list) option"
where
  "parse_arguments ts =
     (if take 1 ts = [Punct (CHR ''('')] then
        (case parse_pairs (length ts) (CHR '')'') (drop 1 ts) of
           None \<Rightarrow> None
         | Some (args, ts') \<Rightarrow> if args = [] then None else Some (args, ts'))
      else Some ([], ts))"

fun parse_selections :: "nat \<Rightarrow> token list \<Rightarrow> (selection list \<times> token list) option" where
  "parse_selections 0 ts = None"
| "parse_selections (Suc n) [] = None"
| "parse_selections (Suc n) (Punct c # ts) = (if c = CHR ''}'' then Some ([], ts) else None)"
| "parse_selections (Suc n) (Name a # ts) =
     (case parse_arguments ts of
        None \<Rightarrow> None
      | Some (args, ts1) \<Rightarrow>
          (case (if take 1 ts1 = [Punct (CHR ''{'')]
                 then (case parse_selections n (drop 1 ts1) of
                         None \<Rightarrow> None
                       | Some (sub, ts2) \<Rightarrow> if sub = [] then None else Some (sub, ts2))
                 else Some ([], ts1)) of
             None \<Rightarrow> None
           | Some (sub, ts2) \<Rightarrow>
               (case parse_selections n ts2 of
                  None \<Rightarrow> None
                | Some (fs, ts3) \<Rightarrow> Some (Selection a args sub # fs, ts3))))"
| "parse_selections (Suc n) (IntTok i # ts) = None"
| "parse_selections (Suc n) (StrTok s # ts) = None"

definition parse_document :: "token list \<Rightarrow> selection list option" where
  "parse_document ts =
     (if take 1 ts = [Punct (CHR ''{'')] then
        (case parse_selections (length ts) (drop 1 ts) of
           None \<Rightarrow> None
         | Some (fs, rest) \<Rightarrow> if fs = [] then None else if rest = [] then Some fs else None)
      else None)"

definition graphql :: "string \<Rightarrow> selection list option" where
  "graphql s = (case tokens s of None \<Rightarrow> None | Some ts \<Rightarrow> parse_document ts)"

text \<open>Every string and every integer written anywhere in a document, in reading order.\<close>

fun value_strings :: "gvalue \<Rightarrow> string list" where
  "value_strings (StringValue s) = [s]"
| "value_strings (ListValue vs) = concat (map value_strings vs)"
| "value_strings (ObjectValue fs) = concat (map (\<lambda>(k, v). value_strings v) fs)"
| "value_strings _ = []"

fun value_ints :: "gvalue \<Rightarrow> int list" where
  "value_ints (IntValue i) = [i]"
| "value_ints (ListValue vs) = concat (map value_ints vs)"
| "value_ints (ObjectValue fs) = concat (map (\<lambda>(k, v). value_ints v) fs)"
| "value_ints _ = []"

fun selection_strings :: "selection \<Rightarrow> string list" where
  "selection_strings (Selection a args sub) =
     concat (map (\<lambda>(k, v). value_strings v) args) @ concat (map selection_strings sub)"

fun selection_ints :: "selection \<Rightarrow> int list" where
  "selection_ints (Selection a args sub) =
     concat (map (\<lambda>(k, v). value_ints v) args) @ concat (map selection_ints sub)"

fun argument :: "string \<Rightarrow> selection \<Rightarrow> gvalue option" where
  "argument k (Selection a args sub) = map_of args k"

fun member :: "string \<Rightarrow> gvalue \<Rightarrow> gvalue option" where
  "member k (ObjectValue fs) = map_of fs k"
| "member k _ = None"

text \<open>
  The filter of a \<^verbatim>\<open>where\<close> object on the timestamp of an entity, read by the
  subgraph's naming of filters: the suffix \<^verbatim>\<open>_gt\<close> is greater than, \<^verbatim>\<open>_gte\<close> greater
  than or equal, \<^verbatim>\<open>_lt\<close> less than, \<^verbatim>\<open>_lte\<close> less than or equal, and no suffix is
  equality. Entries on other fields say nothing about the timestamp.
\<close>

fun timestamp_bound :: "int \<Rightarrow> string \<times> gvalue \<Rightarrow> bool" where
  "timestamp_bound t (k, IntValue b) =
     (if k = ''timestamp_gt'' then b < t
      else if k = ''timestamp_gte'' then b \<le> t
      else if k = ''timestamp_lt'' then t < b
      else if k = ''timestamp_lte'' then t \<le> b
      else if k = ''timestamp'' then t = b
      else True)"
| "timestamp_bound t _ = True"

fun timestamp_window :: "gvalue \<Rightarrow> int \<Rightarrow> bool" where
  "timestamp_window (ObjectValue fs) t = list_all (timestamp_bound t) fs"
| "timestamp_window _ t = True"

subsection \<open>The client on the wire: redirects\<close>














text \<open>A client that returns the same response whatever it is called with.\<close>

definition answering :: "response \<Rightarrow> transport" where
  "answering r req = Inr r"

subsection \<open>The body of a response: JSON text and what the decoder makes of it\<close>

text \<open>
  The text of a body is read in one pass from left to right, in one of two ways. As
  \<open>RFC8259\<close> the reading follows the JSON grammar: white space is space, tab, line
  feed and carriage return; a value is \<^verbatim>\<open>null\<close>, \<^verbatim>\<open>true\<close>, \<^verbatim>\<open>false\<close>, a number,
  a string, an array or an object; a string has no control character and only the
  escapes of the grammar; nothing but white space follows the value. As \<open>CPython\<close>
  the reading is that of the decoder behind \<^verbatim>\<open>r.json()\<close>, which differs in three
  ways: it also takes \<^verbatim>\<open>NaN\<close>, \<^verbatim>\<open>Infinity\<close> and \<^verbatim>\<open>-Infinity\<close> as values; it
  raises ValueError at an integer of more than 4300 digits (the interpreter's default
  limit, in CPython since 3.11); and it gives up on deep nesting with RecursionError,
  at a depth that depends on the interpreter's stack. The reading stops at the first
  thing that goes wrong, so an over-long integer raises ValueError even when the text
  is malformed after it.

  The result \<open>Unmodelled\<close> marks what this model leaves open: under \<open>CPython\<close>,
  nesting deeper than \<open>modelled_depth\<close>. The two counters of \<open>scan_value\<close> are the
  number of steps left, which twice the length of the text plus two always covers,
  and the nesting depth left.
\<close>

text \<open>
  What the text says, before any value is made of it: a constant by its spelling, a
  number by its sign, integer digits, fraction digits and exponent (the last two when
  written), a string by the characters between its quotes with escapes as written.
\<close>

datatype jsyn =
    JWord string
  | JNumber bool string "string option" "string option"
  | JString string
  | JArray "jsyn list"
  | JObject "(string \<times> jsyn) list"

datatype dialect = RFC8259 | CPython

datatype 'a reading = Unmodelled | Raises error | Reads 'a string

definition json_ws :: "char \<Rightarrow> bool" where
  "json_ws c = (c = CHR '' '' \<or> c = CHR 0x09 \<or> c = CHR 0x0A \<or> c = CHR 0x0D)"

definition skip_ws :: "string \<Rightarrow> string" where
  "skip_ws cs = dropWhile json_ws cs"

definition hex_digit :: "char \<Rightarrow> bool" where
  "hex_digit c = (c \<in> set ''0123456789abcdefABCDEF'')"

text \<open>
  A string after its opening quote: the characters up to the closing quote and the text
  after it, or \<open>None\<close> when the string is not closed, holds a control character, or
  has a backslash followed by anything but an escape of the grammar.
\<close>

fun scan_string :: "string \<Rightarrow> (string \<times> string) option" where
  "scan_string [] = None"
| \<open>scan_string (c # cs) =
     (if c = CHR ''"'' then Some ([], cs)
      else if c = CHR 0x5C then
        (case cs of
           [] \<Rightarrow> None
         | e # cs1 \<Rightarrow>
             if e \<in> set [CHR ''"'', CHR 0x5C, CHR ''/'', CHR ''b'', CHR ''f'', CHR ''n'', CHR ''r'', CHR ''t''] then
               (case scan_string cs1 of
                  None \<Rightarrow> None
                | Some (s, rest) \<Rightarrow> Some (c # e # s, rest))
             else if e = CHR ''u'' then
               (case cs1 of
                  h1 # h2 # h3 # h4 # cs2 \<Rightarrow>
                    if hex_digit h1 \<and> hex_digit h2 \<and> hex_digit h3 \<and> hex_digit h4 then
                      (case scan_string cs2 of
                         None \<Rightarrow> None
                       | Some (s, rest) \<Rightarrow> Some (c # e # h1 # h2 # h3 # h4 # s, rest))
                    else None
                | _ \<Rightarrow> None)
             else None)
      else if (of_char c :: nat) < 32 then None
      else (case scan_string cs of
              None \<Rightarrow> None
            | Some (s, rest) \<Rightarrow> Some (c # s, rest)))\<close>

text \<open>
  A number is an optional minus, then \<^verbatim>\<open>0\<close> or a digit from 1 to 9 with any digits
  after it, then optionally a dot with at least one digit, then optionally \<^verbatim>\<open>e\<close> or
  \<^verbatim>\<open>E\<close> with an optional sign and at least one digit. A fraction or exponent that
  is not complete is not part of the number.
\<close>

definition scan_fraction :: "string \<Rightarrow> string option \<times> string" where
  "scan_fraction cs =
     (if take 1 cs = ''.'' \<and> takeWhile digit (drop 1 cs) \<noteq> []
      then (Some (takeWhile digit (drop 1 cs)), dropWhile digit (drop 1 cs))
      else (None, cs))"

definition scan_exponent :: "string \<Rightarrow> string option \<times> string" where
  "scan_exponent cs =
     (if take 1 cs = ''e'' \<or> take 1 cs = ''E'' then
        (let sgn = (if take 1 (drop 1 cs) = ''+'' \<or> take 1 (drop 1 cs) = ''-''
                    then take 1 (drop 1 cs) else []);
             ds = drop (Suc (length sgn)) cs
         in if takeWhile digit ds \<noteq> []
            then (Some (sgn @ takeWhile digit ds), dropWhile digit ds)
            else (None, cs))
      else (None, cs))"

definition scan_number :: "string \<Rightarrow> (jsyn \<times> string) option" where
  "scan_number cs =
     (let neg = (take 1 cs = ''-'');
          cs1 = (if neg then drop 1 cs else cs)
      in case cs1 of
           [] \<Rightarrow> None
         | c # cs2 \<Rightarrow>
             if digit c then
               (let ds = (if c = CHR ''0'' then [c] else c # takeWhile digit cs2);
                    cs3 = (if c = CHR ''0'' then cs2 else dropWhile digit cs2);
                    (fr, cs4) = scan_fraction cs3;
                    (ex, cs5) = scan_exponent cs4
                in Some (JNumber neg ds fr ex, cs5))
             else None)"

text \<open>
  A value that is neither a string, an array nor an object is a constant or a number.
  The decoder converts an integer as soon as it has read it, and that is where the digit
  limit strikes; a number with a fraction or an exponent becomes a float, which has no
  such limit.
\<close>

definition constants :: "dialect \<Rightarrow> string list" where
  "constants dia =
     (case dia of
        RFC8259 \<Rightarrow> [''null'', ''true'', ''false'']
      | CPython \<Rightarrow> [''null'', ''true'', ''false'', ''NaN'', ''Infinity'', ''-Infinity''])"

definition scan_constant :: "dialect \<Rightarrow> string \<Rightarrow> string option" where
  "scan_constant dia cs = find (\<lambda>w. take (length w) cs = w) (constants dia)"

definition int_max_str_digits :: nat where
  "int_max_str_digits = 4300"

definition scan_atom :: "dialect \<Rightarrow> string \<Rightarrow> jsyn reading" where
  "scan_atom dia cs =
     (case scan_constant dia cs of
        Some w \<Rightarrow> Reads (JWord w) (drop (length w) cs)
      | None \<Rightarrow>
          (case scan_number cs of
             None \<Rightarrow> Raises JSONDecodeError
           | Some (JNumber neg ds fr ex, rest) \<Rightarrow>
               if dia = CPython \<and> fr = None \<and> ex = None \<and> int_max_str_digits < length ds
               then Raises ValueError
               else Reads (JNumber neg ds fr ex) rest
           | Some (_, rest) \<Rightarrow> Raises JSONDecodeError))"

text \<open>
  \<open>scan_value\<close> reads one value at the head of the text. \<open>scan_elements\<close> reads the
  elements of an array that is not empty, up to and including its closing bracket, and
  \<open>scan_members\<close> the members of an object that is not empty, up to and including the
  closing brace; neither accepts a comma before the close.
\<close>

fun scan_value :: "nat \<Rightarrow> nat \<Rightarrow> dialect \<Rightarrow> string \<Rightarrow> jsyn reading"
and scan_elements :: "nat \<Rightarrow> nat \<Rightarrow> dialect \<Rightarrow> string \<Rightarrow> jsyn list reading"
and scan_members :: "nat \<Rightarrow> nat \<Rightarrow> dialect \<Rightarrow> string \<Rightarrow> (string \<times> jsyn) list reading"
where
  "scan_value 0 d dia cs = Unmodelled"
| "scan_value (Suc n) d dia [] = Raises JSONDecodeError"
| \<open>scan_value (Suc n) d dia (c # cs) =
     (if c = CHR ''"'' then
        (case scan_string cs of
           None \<Rightarrow> Raises JSONDecodeError
         | Some (s, rest) \<Rightarrow> Reads (JString s) rest)
      else if c = CHR ''['' then
        (case d of
           0 \<Rightarrow> Unmodelled
         | Suc d' \<Rightarrow>
             if take 1 (skip_ws cs) = '']'' then Reads (JArray []) (drop 1 (skip_ws cs))
             else (case scan_elements n d' dia (skip_ws cs) of
                     Unmodelled \<Rightarrow> Unmodelled
                   | Raises e \<Rightarrow> Raises e
                   | Reads vs rest \<Rightarrow> Reads (JArray vs) rest))
      else if c = CHR ''{'' then
        (case d of
           0 \<Rightarrow> Unmodelled
         | Suc d' \<Rightarrow>
             if take 1 (skip_ws cs) = ''}'' then Reads (JObject []) (drop 1 (skip_ws cs))
             else (case scan_members n d' dia (skip_ws cs) of
                     Unmodelled \<Rightarrow> Unmodelled
                   | Raises e \<Rightarrow> Raises e
                   | Reads ms rest \<Rightarrow> Reads (JObject ms) rest))
      else scan_atom dia (c # cs))\<close>
| "scan_elements 0 d dia cs = Unmodelled"
| "scan_elements (Suc n) d dia cs =
     (case scan_value n d dia cs of
        Unmodelled \<Rightarrow> Unmodelled
      | Raises e \<Rightarrow> Raises e
      | Reads v r1 \<Rightarrow>
          if take 1 (skip_ws r1) = '']'' then Reads [v] (drop 1 (skip_ws r1))
          else if take 1 (skip_ws r1) = '','' then
            (case scan_elements n d dia (skip_ws (drop 1 (skip_ws r1))) of
               Unmodelled \<Rightarrow> Unmodelled
             | Raises e \<Rightarrow> Raises e
             | Reads vs r2 \<Rightarrow> Reads (v # vs) r2)
          else Raises JSONDecodeError)"
| "scan_members 0 d dia cs = Unmodelled"
| \<open>scan_members (Suc n) d dia cs =
     (if take 1 cs = ''"'' then
        (case scan_string (drop 1 cs) of
           None \<Rightarrow> Raises JSONDecodeError
         | Some (k, r1) \<Rightarrow>
             if take 1 (skip_ws r1) = '':'' then
               (case scan_value n d dia (skip_ws (drop 1 (skip_ws r1))) of
                  Unmodelled \<Rightarrow> Unmodelled
                | Raises e \<Rightarrow> Raises e
                | Reads v r2 \<Rightarrow>
                    if take 1 (skip_ws r2) = ''}'' then Reads [(k, v)] (drop 1 (skip_ws r2))
                    else if take 1 (skip_ws r2) = '','' then
                      (case scan_members n d dia (skip_ws (drop 1 (skip_ws r2))) of
                         Unmodelled \<Rightarrow> Unmodelled
                       | Raises e \<Rightarrow> Raises e
                       | Reads ms r3 \<Rightarrow> Reads ((k, v) # ms) r3)
                    else Raises JSONDecodeError)
             else Raises JSONDecodeError)
      else Raises JSONDecodeError)\<close>

definition modelled_depth :: nat where
  "modelled_depth = 100"

definition scan_document :: "dialect \<Rightarrow> string \<Rightarrow> jsyn reading" where
  "scan_document dia s =
     (case scan_value (Suc (Suc (2 * length s)))
             (case dia of RFC8259 \<Rightarrow> length s | CPython \<Rightarrow> modelled_depth) dia (skip_ws s) of
        Unmodelled \<Rightarrow> Unmodelled
      | Raises e \<Rightarrow> Raises e
      | Reads v rest \<Rightarrow> if skip_ws rest = [] then Reads v [] else Raises JSONDecodeError)"

text \<open>A text is valid JSON when the grammar reads it as one value and nothing more.\<close>

definition valid_json :: "string \<Rightarrow> bool" where
  "valid_json s = (case scan_document RFC8259 s of Reads v rest \<Rightarrow> True | _ \<Rightarrow> False)"

text \<open>
  The value the decoder builds. \<^verbatim>\<open>d[k] = v\<close> on a dict replaces the value of a key
  that is there and appends a key that is not, so of two members with one key the
  later value stays, at the place of the earlier. \<^verbatim>\<open>NaN\<close> and the infinities become
  the floats of those names. Left open by the model (\<open>None\<close>) are the float of a
  number with a fraction or an exponent, and the string of a literal with escapes.
\<close>

fun dict_set :: "(string \<times> pyval) list \<Rightarrow> string \<Rightarrow> pyval \<Rightarrow> (string \<times> pyval) list" where
  "dict_set [] k v = [(k, v)]"
| "dict_set ((k', v') # d) k v = (if k' = k then (k, v) # d else (k', v') # dict_set d k v)"

fun pyval_of :: "jsyn \<Rightarrow> pyval option" where
  "pyval_of (JWord w) =
     (if w = ''null'' then Some PNone
      else if w = ''true'' then Some (PBool True)
      else if w = ''false'' then Some (PBool False)
      else if w = ''NaN'' then Some (PFloat 0x7FF8000000000000)
      else if w = ''Infinity'' then Some (PFloat 0x7FF0000000000000)
      else if w = ''-Infinity'' then Some (PFloat 0xFFF0000000000000)
      else None)"
| "pyval_of (JNumber neg ds fr ex) =
     (if fr = None \<and> ex = None then Some (PInt (if neg then - decimal ds else decimal ds))
      else None)"
| "pyval_of (JString s) = (if CHR 0x5C \<in> set s then None else Some (PStr s))"
| "pyval_of (JArray vs) = map_option PList (those (map pyval_of vs))"
| "pyval_of (JObject ms) =
     (if list_ex (\<lambda>(k, v). CHR 0x5C \<in> set k) ms then None
      else map_option (\<lambda>vs. PDict (foldl (\<lambda>d (k, v). dict_set d k v) [] (zip (map fst ms) vs)))
             (those (map (\<lambda>(k, v). pyval_of v) ms)))"

text \<open>
  What \<^verbatim>\<open>r.json()\<close> does with the text of a body: the exception it raises or the
  value it returns, and \<open>None\<close> where the model leaves that open.
\<close>

definition json_loads :: "string \<Rightarrow> (error + pyval) option" where
  "json_loads s =
     (case scan_document CPython s of
        Unmodelled \<Rightarrow> None
      | Raises e \<Rightarrow> Some (Inl e)
      | Reads v rest \<Rightarrow> map_option Inr (pyval_of v))"

text \<open>
  The response object the module gets for a status and a body text, where the model
  says what the decoder does with the text.
\<close>

definition received :: "int \<Rightarrow> string \<Rightarrow> response option" where
  "received s body =
     map_option (\<lambda>res. \<lparr>status_code = s, json_result = res\<rparr>) (json_loads body)"

section \<open>Properties\<close>

subsection \<open>What a call does to the trace, and what it returns\<close>

lemma requests_of_append: "requests_of (w @ w') = requests_of w @ requests_of w'"
  by (induction w rule: requests_of.induct) simp_all

lemma printed_of_append: "printed_of (w @ w') = printed_of w @ printed_of w'"
  by (induction w rule: printed_of.induct) simp_all

lemma query_graph_world:
  "snd (query_graph http w) =
     (case http graph_request of
        Inl e \<Rightarrow> w @ [Sent graph_request]
      | Inr r \<Rightarrow> w @ [Sent graph_request, Printed (status_code r)])"
  by (simp add: query_graph_def requests_post_def graph_request_def print_def Let_def
           split: sum.splits)

lemma query_binance_world:
  "snd (query_binance http w) =
     (case http binance_request of
        Inl e \<Rightarrow> w @ [Sent binance_request]
      | Inr r \<Rightarrow> w @ [Sent binance_request, Printed (status_code r)])"
  by (simp add: query_binance_def requests_get_def binance_request_def print_def Let_def
           split: sum.splits)

lemma query_graph_result:
  "fst (query_graph http w) =
     (case http graph_request of
        Inl e \<Rightarrow> Inl e
      | Inr r \<Rightarrow>
          (case response_json r of Inl e \<Rightarrow> Inl e | Inr body \<Rightarrow> subscript body ''data''))"
  by (simp add: query_graph_def requests_post_def graph_request_def Let_def
           split: sum.splits)

lemma query_binance_result:
  "fst (query_binance http w) =
     (case http binance_request of Inl e \<Rightarrow> Inl e | Inr r \<Rightarrow> response_json r)"
  by (simp add: query_binance_def requests_get_def binance_request_def Let_def
           split: sum.splits)

lemma query_graph_requests:
  "requests_of (snd (query_graph http w)) = requests_of w @ [graph_request]"
  by (simp add: query_graph_world requests_of_append split: sum.splits)

lemma query_binance_requests:
  "requests_of (snd (query_binance http w)) = requests_of w @ [binance_request]"
  by (simp add: query_binance_world requests_of_append split: sum.splits)

subsection \<open>What the document says\<close>

lemma graph_q_tokens:
  "tokens graph_q = Some
     [Punct (CHR ''{''), Name ''swaps'', Punct (CHR ''(''), Name ''where'', Punct (CHR '':''),
      Punct (CHR ''{''), Name ''pool_in'', Punct (CHR '':''), Punct (CHR ''[''),
      StrTok ''0x88e6a0c2ddd26feeb64f039a2c41296fcb3f5640'',
      StrTok ''0x8ad599c3a0ff1de082011efddc58f1908eb6e6d8'',
      StrTok ''0xe0554a476a092703abdb3ef35c80e0d76d32939f'',
      StrTok ''0x7BeA39867e4169DBe237d55C8242a8f2fcDcc387'',
      Punct (CHR '']''),
      Name ''timestamp_gt'', Punct (CHR '':''), IntTok 1733080500,
      Name ''timestamp_lt'', Punct (CHR '':''), IntTok 1733080560,
      Punct (CHR ''}''),
      Name ''orderBy'', Punct (CHR '':''), Name ''timestamp'',
      Name ''orderDirection'', Punct (CHR '':''), Name ''desc'',
      Punct (CHR '')''),
      Punct (CHR ''{''), Name ''amount0'', Name ''amount1'', Punct (CHR ''}''),
      Punct (CHR ''}'')]"
  by code_simp

lemma graph_q_document:
  "graphql graph_q = Some
     [Selection ''swaps''
        [(''where'',
          ObjectValue
            [(''pool_in'',
              ListValue
                [StringValue ''0x88e6a0c2ddd26feeb64f039a2c41296fcb3f5640'',
                 StringValue ''0x8ad599c3a0ff1de082011efddc58f1908eb6e6d8'',
                 StringValue ''0xe0554a476a092703abdb3ef35c80e0d76d32939f'',
                 StringValue ''0x7BeA39867e4169DBe237d55C8242a8f2fcDcc387'']),
             (''timestamp_gt'', IntValue 1733080500),
             (''timestamp_lt'', IntValue 1733080560)]),
         (''orderBy'', EnumValue ''timestamp''),
         (''orderDirection'', EnumValue ''desc'')]
        [Selection ''amount0'' [] [], Selection ''amount1'' [] []]]"
  unfolding graphql_def graph_q_tokens by code_simp

subsection \<open>What one call of the client puts on the wire\<close>








subsection \<open>Two bodies and the decoder\<close>

text \<open>
  A run of the digit 7 is valid JSON at any length, and from 4301 digits on the decoder
  raises ValueError on it. The text \<^verbatim>\<open>{"data": NaN}\<close> is not valid JSON, and the
  decoder returns a dict for it.
\<close>

lemma sevens_not_constant:
  "scan_constant dia (CHR ''7'' # cs) = None"
  by (cases dia) (simp_all add: scan_constant_def constants_def)

lemma sevens_number:
  "scan_number (CHR ''7'' # replicate n (CHR ''7''))
     = Some (JNumber False (CHR ''7'' # replicate n (CHR ''7'')) None None, [])"
  by (simp add: scan_number_def digit_def scan_fraction_def scan_exponent_def)

lemma sevens_valid: "valid_json (replicate (Suc n) (CHR ''7''))"
  by (simp add: valid_json_def scan_document_def skip_ws_def json_ws_def scan_atom_def
        sevens_not_constant sevens_number)

lemma sevens_loads:
  assumes "int_max_str_digits \<le> n"
  shows "json_loads (replicate (Suc n) (CHR ''7'')) = Some (Inl ValueError)"
  using assms
  by (simp add: json_loads_def scan_document_def skip_ws_def json_ws_def scan_atom_def
        sevens_not_constant sevens_number)

lemma nan_body_invalid: \<open>\<not> valid_json ''{"data": NaN}''\<close>
  by code_simp

lemma nan_body_loads:
  \<open>json_loads ''{"data": NaN}'' = Some (Inr (PDict [(''data'', PFloat 0x7FF8000000000000)]))\<close>
  by code_simp

subsection \<open>The claims\<close>

text \<open>
  C1. When the gateway answers the request of \<open>query_graph\<close> with a response whose
  body decodes to a dict that has the key \<^verbatim>\<open>data\<close>, \<open>query_graph\<close> returns the value
  stored under that key, as it is.
\<close>

theorem query_graph_returns_data:
  assumes "http graph_request = Inr r"
    and "json_body r = Some (PDict d)"
    and "map_of d ''data'' = Some v"
  shows "fst (query_graph http w) = Inr v"
  using assms
  by (simp add: query_graph_result response_json_def json_body_def split: sum.splits)

text \<open>
  The response \<^verbatim>\<open>{"data": {"swaps": [{"amount0": "1.0", "amount1": "-2.0"}]}}\<close> with
  status 200.
\<close>

theorem query_graph_returns_data_witness:
  "fst (query_graph
          (\<lambda>req. Inr \<lparr>status_code = 200,
                       json_result = Inr (PDict [(''data'', PDict [(''swaps'',
                         PList [PDict [(''amount0'', PStr ''1.0''),
                                       (''amount1'', PStr ''-2.0'')]])])])\<rparr>) [])
   = Inr (PDict [(''swaps'',
            PList [PDict [(''amount0'', PStr ''1.0''), (''amount1'', PStr ''-2.0'')]])])"
  using query_graph_returns_data
    [of "\<lambda>req. Inr \<lparr>status_code = 200,
                       json_result = Inr (PDict [(''data'', PDict [(''swaps'',
                         PList [PDict [(''amount0'', PStr ''1.0''),
                                       (''amount1'', PStr ''-2.0'')]])])])\<rparr>"
        "\<lparr>status_code = 200,
           json_result = Inr (PDict [(''data'', PDict [(''swaps'',
             PList [PDict [(''amount0'', PStr ''1.0''), (''amount1'', PStr ''-2.0'')]])])])\<rparr>"
        "[(''data'', PDict [(''swaps'',
             PList [PDict [(''amount0'', PStr ''1.0''), (''amount1'', PStr ''-2.0'')]])])]"
        "PDict [(''swaps'',
             PList [PDict [(''amount0'', PStr ''1.0''), (''amount1'', PStr ''-2.0'')]])]"
        "[]"]
  by (simp add: json_body_def)

text \<open>
  C2. When \<^verbatim>\<open>r.json()\<close> raises on the body of the response, or returns anything
  other than a dict with the key \<^verbatim>\<open>data\<close>, \<open>query_graph\<close> returns no value: it
  raises the decoder's own exception in the first case, KeyError for a dict without
  the key, and TypeError for a decoded value that is not a dict.
\<close>

theorem query_graph_raises_without_data:
  assumes "http graph_request = Inr r"
    and "\<nexists>d v. json_body r = Some (PDict d) \<and> map_of d ''data'' = Some v"
  shows "fst (query_graph http w) =
           Inl (case json_result r of
                  Inl e \<Rightarrow> e
                | Inr (PDict d) \<Rightarrow> KeyError ''data''
                | Inr _ \<Rightarrow> TypeError)"
proof (cases "json_result r")
  case (Inl e)
  with assms(1) show ?thesis
    by (simp add: query_graph_result response_json_def)
next
  case (Inr body)
  show ?thesis
  proof (cases body)
    case (PDict d)
    with Inr assms(2) have "map_of d ''data'' = None"
      by (cases "map_of d ''data''") (auto simp: json_body_def)
    with Inr PDict assms(1) show ?thesis
      by (simp add: query_graph_result response_json_def)
  qed (use Inr assms(1) in \<open>simp_all add: query_graph_result response_json_def\<close>)
qed

text \<open>
  The response \<^verbatim>\<open>{"errors": [{"message": "bad query"}]}\<close> with status 200, and a
  response with status 502 whose body is not JSON.
\<close>

theorem query_graph_raises_without_data_witness:
  "fst (query_graph
          (\<lambda>req. Inr \<lparr>status_code = 200,
                       json_result = Inr (PDict [(''errors'',
                         PList [PDict [(''message'', PStr ''bad query'')]])])\<rparr>) [])
     = Inl (KeyError ''data'') \<and>
   fst (query_graph (\<lambda>req. Inr \<lparr>status_code = 502, json_result = Inl JSONDecodeError\<rparr>) [])
     = Inl JSONDecodeError"
  using query_graph_raises_without_data
    [of "\<lambda>req. Inr \<lparr>status_code = 200,
                       json_result = Inr (PDict [(''errors'',
                         PList [PDict [(''message'', PStr ''bad query'')]])])\<rparr>"
        "\<lparr>status_code = 200,
           json_result = Inr (PDict [(''errors'',
             PList [PDict [(''message'', PStr ''bad query'')]])])\<rparr>"
        "[]"]
    query_graph_raises_without_data
    [of "\<lambda>req. Inr \<lparr>status_code = 502, json_result = Inl JSONDecodeError\<rparr>"
        "\<lparr>status_code = 502, json_result = Inl JSONDecodeError\<rparr>"
        "[]"]
  by (simp add: json_body_def)

text \<open>
  The claim says this of every body that is not valid JSON, which is more than holds:
  the text \<^verbatim>\<open>{"data": NaN}\<close> is not valid JSON, the decoder returns the dict
  \<^verbatim>\<open>{'data': nan}\<close> for it, and \<open>query_graph\<close> returns that \<^verbatim>\<open>nan\<close>.
\<close>

theorem query_graph_returns_on_invalid_json:
  \<open>\<not> valid_json ''{"data": NaN}'' \<and>
   received 200 ''{"data": NaN}''
     = Some \<lparr>status_code = 200,
             json_result = Inr (PDict [(''data'', PFloat 0x7FF8000000000000)])\<rparr> \<and>
   fst (query_graph
          (answering \<lparr>status_code = 200,
                      json_result = Inr (PDict [(''data'', PFloat 0x7FF8000000000000)])\<rparr>) [])
     = Inr (PFloat 0x7FF8000000000000)\<close>
  using nan_body_invalid nan_body_loads
  by (simp add: received_def query_graph_result response_json_def answering_def)

text \<open>
  C3. When the exchange answers the request of \<open>query_binance\<close> with a response
  whose body \<^verbatim>\<open>r.json()\<close> decodes, \<open>query_binance\<close> returns the decoded value
  itself: nothing is renamed, dropped or picked out of it.
\<close>

theorem query_binance_returns_body:
  assumes "http binance_request = Inr r"
    and "json_body r = Some v"
  shows "fst (query_binance http w) = Inr v"
  using assms
  by (simp add: query_binance_result response_json_def json_body_def split: sum.splits)

text \<open>The response \<^verbatim>\<open>[{"p": "3000.5", "q": "0.1", "T": 1733240410000}]\<close> with status 200.\<close>

theorem query_binance_returns_body_witness:
  "fst (query_binance
          (\<lambda>req. Inr \<lparr>status_code = 200,
                       json_result = Inr (PList [PDict [(''p'', PStr ''3000.5''),
                         (''q'', PStr ''0.1''), (''T'', PInt 1733240410000)]])\<rparr>) [])
   = Inr (PList [PDict [(''p'', PStr ''3000.5''), (''q'', PStr ''0.1''),
                        (''T'', PInt 1733240410000)]])"
  using query_binance_returns_body
    [of "\<lambda>req. Inr \<lparr>status_code = 200,
                       json_result = Inr (PList [PDict [(''p'', PStr ''3000.5''),
                         (''q'', PStr ''0.1''), (''T'', PInt 1733240410000)]])\<rparr>"
        "\<lparr>status_code = 200,
           json_result = Inr (PList [PDict [(''p'', PStr ''3000.5''),
             (''q'', PStr ''0.1''), (''T'', PInt 1733240410000)]])\<rparr>"
        "PList [PDict [(''p'', PStr ''3000.5''), (''q'', PStr ''0.1''),
                       (''T'', PInt 1733240410000)]]"
        "[]"]
  by (simp add: json_body_def)

text \<open>
  The claim says this of every valid JSON body, which is more than holds: 4301 times
  the digit 7 is valid JSON, the decoder raises ValueError on it, and so does
  \<open>query_binance\<close>, returning nothing.
\<close>

theorem query_binance_raises_on_valid_json:
  "valid_json (replicate 4301 (CHR ''7'')) \<and>
   received 200 (replicate 4301 (CHR ''7''))
     = Some \<lparr>status_code = 200, json_result = Inl ValueError\<rparr> \<and>
   fst (query_binance (answering \<lparr>status_code = 200, json_result = Inl ValueError\<rparr>) [])
     = Inl ValueError"
  using sevens_valid [of 4300] sevens_loads [of 4300]
  by (simp add: received_def int_max_str_digits_def query_binance_result response_json_def
        answering_def)

text \<open>
  C4. On every call, the one request \<open>query_graph\<close> sends is a POST whose JSON body
  is a dict, within what the JSON encoder accepts, with the key \<^verbatim>\<open>query\<close>. The string
  under that key reads as a GraphQL document with one field. The \<^verbatim>\<open>pool_in\<close> entry
  of its \<^verbatim>\<open>where\<close> argument is a list of four elements, the four pool addresses,
  all different, and the document holds no other string. Its \<^verbatim>\<open>timestamp_gt\<close> and
  \<^verbatim>\<open>timestamp_lt\<close> entries are 1733080500 and 1733080560, and the document holds no
  other integer.
\<close>

theorem query_graph_body_pools_and_bounds:
  "\<exists>req d doc filter pools.
     requests_of (snd (query_graph http w)) = requests_of w @ [req] \<and>
     verb req = POST \<and>
     json req = Some (PDict [(''query'', PStr d)]) \<and>
     json_serialisable (PDict [(''query'', PStr d)]) \<and>
     body_query req = Some d \<and>
     graphql d = Some [doc] \<and>
     pools = [''0x88e6a0c2ddd26feeb64f039a2c41296fcb3f5640'',
              ''0x8ad599c3a0ff1de082011efddc58f1908eb6e6d8'',
              ''0xe0554a476a092703abdb3ef35c80e0d76d32939f'',
              ''0x7BeA39867e4169DBe237d55C8242a8f2fcDcc387''] \<and>
     distinct pools \<and>
     argument ''where'' doc = Some filter \<and>
     member ''pool_in'' filter = Some (ListValue (map StringValue pools)) \<and>
     selection_strings doc = pools \<and>
     member ''timestamp_gt'' filter = Some (IntValue 1733080500) \<and>
     member ''timestamp_lt'' filter = Some (IntValue 1733080560) \<and>
     selection_ints doc = [1733080500, 1733080560]"
  by (simp add: query_graph_requests graph_request_def body_query_def graph_q_document)

text \<open>
  C5. On every call, the one request \<open>query_binance\<close> sends is a GET whose URL has
  the path \<^verbatim>\<open>/api/v3/aggTrades\<close> on the host \<^verbatim>\<open>api.binance.com\<close> and the query
  parameters \<^verbatim>\<open>symbol=ETHUSDC\<close>, \<^verbatim>\<open>startTime=1733240400000\<close> and
  \<^verbatim>\<open>endTime=1733240460000\<close>, and no others.
\<close>

theorem query_binance_url_parameters:
  "\<exists>req.
     requests_of (snd (query_binance http w)) = requests_of w @ [req] \<and>
     verb req = GET \<and>
     split_url (url req) =
       Some \<lparr>scheme = ''https'', authority = ''api.binance.com'',
             path = ''/api/v3/aggTrades'',
             query = [(''symbol'', ''ETHUSDC''),
                      (''startTime'', ''1733240400000''),
                      (''endTime'', ''1733240460000'')]\<rparr>"
  by (simp add: query_binance_requests binance_request_def binance_url_def split_url_def
        key_value_def)




text \<open>
  C7. On every call, the request \<open>query_graph\<close> sends is a POST to the gateway URL
  written in the source, with the header \<^verbatim>\<open>Content-Type: application/json\<close>, and with
  the JSON body \<^verbatim>\<open>{"query": q}\<close> where \<open>q\<close> is the GraphQL document.
\<close>

theorem query_graph_posts_json:
  "requests_of (snd (query_graph http w)) = requests_of w @
     [\<lparr>verb = POST,
       url = ''https://gateway.thegraph.com/api/da162f6f59fe4400bb44cfb2f36d1336/subgraphs/id/5zvR82QoaXYFyDEKLZ9t6v9adgnptxYpKpSbxtgVENFV'',
       headers = [(''Content-Type'', ''application/json'')],
       json = Some (PDict [(''query'', PStr graph_q)])\<rparr>]"
  by (simp add: query_graph_requests graph_request_def graph_url_def graph_header_def)

text \<open>
  C8. The document in the request \<open>query_graph\<close> sends asks for one field,
  \<^verbatim>\<open>swaps\<close>, and selects exactly \<^verbatim>\<open>amount0\<close> and \<^verbatim>\<open>amount1\<close> under it. Its
  \<^verbatim>\<open>where\<close> argument bounds the timestamp with \<^verbatim>\<open>timestamp_gt\<close> and
  \<^verbatim>\<open>timestamp_lt\<close> and with no other timestamp filter, so a timestamp passes exactly
  when it lies strictly between 1733080500 and 1733080560. The results are ordered by
  \<^verbatim>\<open>timestamp\<close>, in direction \<^verbatim>\<open>desc\<close>.
\<close>

theorem query_graph_fields_window_order:
  "\<exists>req d args filter.
     requests_of (snd (query_graph http w)) = requests_of w @ [req] \<and>
     body_query req = Some d \<and>
     graphql d =
       Some [Selection ''swaps'' args [Selection ''amount0'' [] [], Selection ''amount1'' [] []]] \<and>
     map_of args ''where'' = Some filter \<and>
     member ''timestamp_gt'' filter = Some (IntValue 1733080500) \<and>
     member ''timestamp_lt'' filter = Some (IntValue 1733080560) \<and>
     member ''timestamp_gte'' filter = None \<and>
     member ''timestamp_lte'' filter = None \<and>
     member ''timestamp'' filter = None \<and>
     (\<forall>t. timestamp_window filter t = (1733080500 < t \<and> t < 1733080560)) \<and>
     map_of args ''orderBy'' = Some (EnumValue ''timestamp'') \<and>
     map_of args ''orderDirection'' = Some (EnumValue ''desc'')"
  by (simp add: query_graph_requests graph_request_def body_query_def graph_q_document)

text \<open>
  C9. When the body of the response decodes to a dict that has the key \<^verbatim>\<open>data\<close>
  among any other keys, before or after it, \<open>query_graph\<close> returns the value under
  \<^verbatim>\<open>data\<close> and raises nothing; the other keys reach neither the result nor the
  trace, which only gains the request and the printed status code.
\<close>

theorem query_graph_discards_other_keys:
  assumes "http graph_request = Inr r"
    and "json_body r = Some (PDict (before @ (''data'', v) # after))"
    and "''data'' \<notin> fst ` set before"
  shows "query_graph http w = (Inr v, w @ [Sent graph_request, Printed (status_code r)])"
proof -
  from assms(3) have "map_of before ''data'' = None"
    by (simp add: map_of_eq_None_iff)
  then have "map_of (before @ (''data'', v) # after) ''data'' = Some v"
    by (simp add: map_add_def)
  with assms(1,2) have "fst (query_graph http w) = Inr v"
    by (simp add: query_graph_result response_json_def json_body_def split: sum.splits)
  moreover from assms(1)
  have "snd (query_graph http w) = w @ [Sent graph_request, Printed (status_code r)]"
    by (simp add: query_graph_world)
  ultimately show ?thesis
    by (simp add: prod_eq_iff)
qed

text \<open>
  The partial-error response
  \<^verbatim>\<open>{"errors": [{"message": "indexing_error"}], "data": {"swaps": []}}\<close> with status 200.
\<close>

theorem query_graph_discards_other_keys_witness:
  "query_graph
     (\<lambda>req. Inr \<lparr>status_code = 200,
                  json_result = Inr (PDict [(''errors'',
                      PList [PDict [(''message'', PStr ''indexing_error'')]]),
                    (''data'', PDict [(''swaps'', PList [])])])\<rparr>) []
   = (Inr (PDict [(''swaps'', PList [])]), [Sent graph_request, Printed 200])"
  using query_graph_discards_other_keys
    [of "\<lambda>req. Inr \<lparr>status_code = 200,
                  json_result = Inr (PDict [(''errors'',
                      PList [PDict [(''message'', PStr ''indexing_error'')]]),
                    (''data'', PDict [(''swaps'', PList [])])])\<rparr>"
        "\<lparr>status_code = 200,
           json_result = Inr (PDict [(''errors'',
               PList [PDict [(''message'', PStr ''indexing_error'')]]),
             (''data'', PDict [(''swaps'', PList [])])])\<rparr>"
        "[(''errors'', PList [PDict [(''message'', PStr ''indexing_error'')]])]"
        "PDict [(''swaps'', PList [])]"
        "[]"
        "[]"]
  by (simp add: json_body_def)

text \<open>
  C10. Every response \<open>query_graph\<close> receives has its status code printed, right
  after the request, whatever happens next: the trace is the same whether the body
  then decodes and has the key \<^verbatim>\<open>data\<close> or the call ends in an exception. The same
  holds for every response \<open>query_binance\<close> receives.
\<close>

theorem status_code_printed_first:
  "(http graph_request = Inr r \<longrightarrow>
      snd (query_graph http w) = w @ [Sent graph_request, Printed (status_code r)] \<and>
      printed_of (snd (query_graph http w)) = printed_of w @ [status_code r]) \<and>
   (http binance_request = Inr r \<longrightarrow>
      snd (query_binance http w) = w @ [Sent binance_request, Printed (status_code r)] \<and>
      printed_of (snd (query_binance http w)) = printed_of w @ [status_code r])"
  by (simp add: query_graph_world query_binance_world printed_of_append)

text \<open>
  A response with status 500 whose body is not JSON: both calls end in
  JSONDecodeError, and both have printed 500 by then.
\<close>

theorem status_code_printed_first_witness:
  "fst (query_graph (\<lambda>req. Inr \<lparr>status_code = 500, json_result = Inl JSONDecodeError\<rparr>) []) = Inl JSONDecodeError \<and>
   snd (query_graph (\<lambda>req. Inr \<lparr>status_code = 500, json_result = Inl JSONDecodeError\<rparr>) [])
     = [Sent graph_request, Printed 500] \<and>
   fst (query_binance (\<lambda>req. Inr \<lparr>status_code = 500, json_result = Inl JSONDecodeError\<rparr>) []) = Inl JSONDecodeError \<and>
   snd (query_binance (\<lambda>req. Inr \<lparr>status_code = 500, json_result = Inl JSONDecodeError\<rparr>) [])
     = [Sent binance_request, Printed 500]"
  using status_code_printed_first
    [of "\<lambda>req. Inr \<lparr>status_code = 500, json_result = Inl JSONDecodeError\<rparr>"
        "\<lparr>status_code = 500, json_result = Inl JSONDecodeError\<rparr>" "[]"]
  by (simp add: query_graph_result query_binance_result response_json_def)

end
